theory Spec2Isabelle
  imports Complex_Main
begin

section \<open>Server: the bouncing ball (server.py, class BouncingBallTrack)\<close>

text \<open>
  Module constants of server.py. The names are the source's: \<open>SCREEN_HEIGHT\<close> is 640 and
  is used as the extent of the x axis, \<open>SCREEN_WIDTH\<close> is 480 and is used as the extent of
  the y axis (\<open>screen_size = (SCREEN_HEIGHT, SCREEN_WIDTH)\<close>, and the canvas has
  \<open>screen_size[1]\<close> rows and \<open>screen_size[0]\<close> columns).
\<close>

definition SCREEN_HEIGHT :: int where
  "SCREEN_HEIGHT = 640"

definition SCREEN_WIDTH :: int where
  "SCREEN_WIDTH = 480"

text \<open>
  The attributes that \<open>__init__\<close> sets on a track. Python integers are unbounded, so
  every number is an \<open>int\<close>.
\<close>

record BouncingBallTrack =
  screen_size :: "int \<times> int"
  position_x :: int
  position_y :: int
  speed_x :: int
  speed_y :: int
  ball_radius :: int
  ball_color :: "int \<times> int \<times> int"

definition BouncingBallTrack_init :: BouncingBallTrack where
  "BouncingBallTrack_init =
     \<lparr>screen_size = (SCREEN_HEIGHT, SCREEN_WIDTH),
      position_x = fst (SCREEN_HEIGHT, SCREEN_WIDTH) div 2,
      position_y = snd (SCREEN_HEIGHT, SCREEN_WIDTH) div 2,
      speed_x = 1,
      speed_y = 1,
      ball_radius = 20,
      ball_color = (0, 0, 255)\<rparr>"

text \<open>
  \<open>update_delta_with_bound\<close>: two independent \<open>if\<close>/\<open>elif\<close> chains, the x axis first.
  In each chain the far boundary is tested before the near one, and either test negates the
  speed of that axis. The position is not written.
\<close>

definition update_delta_with_bound :: "BouncingBallTrack \<Rightarrow> BouncingBallTrack" where
  "update_delta_with_bound s =
     (let s1 = (if position_x s + ball_radius s \<ge> fst (screen_size s)
                then s\<lparr>speed_x := speed_x s * (- 1)\<rparr>
                else if position_x s - ball_radius s \<le> 0
                then s\<lparr>speed_x := speed_x s * (- 1)\<rparr>
                else s)
      in (if position_y s1 + ball_radius s1 \<ge> snd (screen_size s1)
          then s1\<lparr>speed_y := speed_y s1 * (- 1)\<rparr>
          else if position_y s1 - ball_radius s1 \<le> 0
          then s1\<lparr>speed_y := speed_y s1 * (- 1)\<rparr>
          else s1))"

text \<open>
  The image that \<open>get_next_image\<close> returns is a white canvas of \<open>screen_size[1]\<close> rows and
  \<open>screen_size[0]\<close> columns with one filled disc drawn on it; the record keeps what
  determines the pixels.
\<close>

record canvas =
  rows :: int
  cols :: int
  disc_center :: "int \<times> int"
  disc_radius :: int
  disc_color :: "int \<times> int \<times> int"

text \<open>
  \<open>get_next_image\<close>: move by the speed on both axes, draw the disc at the new position,
  then let \<open>update_delta_with_bound\<close> look at the new position. Returns the image and the
  updated track.
\<close>

definition get_next_image :: "BouncingBallTrack \<Rightarrow> canvas \<times> BouncingBallTrack" where
  "get_next_image s =
     (let s1 = s\<lparr>position_x := position_x s + speed_x s\<rparr>;
          s2 = s1\<lparr>position_y := position_y s1 + speed_y s1\<rparr>;
          frame = \<lparr>rows = snd (screen_size s2), cols = fst (screen_size s2),
                   disc_center = (position_x s2, position_y s2),
                   disc_radius = ball_radius s2, disc_color = ball_color s2\<rparr>
      in (frame, update_delta_with_bound s2))"

text \<open>One tick of the simulator is one call of \<open>get_next_image\<close>; \<open>ticks n\<close> is n calls.\<close>

definition tick :: "BouncingBallTrack \<Rightarrow> BouncingBallTrack" where
  "tick s = snd (get_next_image s)"

primrec ticks :: "nat \<Rightarrow> BouncingBallTrack \<Rightarrow> BouncingBallTrack" where
  "ticks 0 s = s"
| "ticks (Suc n) s = ticks n (tick s)"

text \<open>
  The containment the specification asks for: on each axis the centre is at least one
  radius away from both ends of the axis.
\<close>

definition within_bounds :: "BouncingBallTrack \<Rightarrow> bool" where
  "within_bounds s \<longleftrightarrow>
     ball_radius s \<le> position_x s \<and> position_x s \<le> fst (screen_size s) - ball_radius s \<and>
     ball_radius s \<le> position_y s \<and> position_y s \<le> snd (screen_size s) - ball_radius s"

text \<open>
  A start from which containment is kept: unit speeds, the centre within bounds, and a ball
  that touches a wall is not moving towards it. \<open>BouncingBallTrack_init\<close> is such a start.
\<close>

definition unit_speed :: "int \<Rightarrow> bool" where
  "unit_speed v \<longleftrightarrow> v = 1 \<or> v = - 1"

definition axis_ok :: "int \<Rightarrow> int \<Rightarrow> int \<Rightarrow> int \<Rightarrow> bool" where
  "axis_ok bound r p v \<longleftrightarrow>
     unit_speed v \<and> r \<le> p \<and> p \<le> bound - r \<and>
     (p = bound - r \<longrightarrow> v = - 1) \<and> (p = r \<longrightarrow> v = 1)"

definition inward_start :: "BouncingBallTrack \<Rightarrow> bool" where
  "inward_start s \<longleftrightarrow>
     axis_ok (fst (screen_size s)) (ball_radius s) (position_x s) (speed_x s) \<and>
     axis_ok (snd (screen_size s)) (ball_radius s) (position_y s) (speed_y s)"

section \<open>Server: frame pacing (server.py, BouncingBallTrack.next_timestamp)\<close>

definition VIDEO_CLOCK_RATE :: int where
  "VIDEO_CLOCK_RATE = 90000"

text \<open>
  \<open>VIDEO_PTIME = 1 / 30\<close> is a Python float. It is modelled as the real number 1/30, and
  the product \<open>VIDEO_PTIME * VIDEO_CLOCK_RATE\<close> as the real product; lemma
  \<open>binary64_frame_ticks\<close> below records why the binary64 computation gives the same
  integer.
\<close>

definition VIDEO_PTIME :: real where
  "VIDEO_PTIME = 1 / 30"

definition VIDEO_TIME_BASE :: rat where
  "VIDEO_TIME_BASE = 1 / of_int VIDEO_CLOCK_RATE"

text \<open>Python's \<open>int(x)\<close> on a float truncates towards zero.\<close>

definition py_int :: "real \<Rightarrow> int" where
  "py_int r = (if 0 \<le> r then \<lfloor>r\<rfloor> else \<lceil>r\<rceil>)"

text \<open>
  The attributes \<open>_start\<close> and \<open>_timestamp\<close> do not exist before the first call
  (\<open>hasattr(self, "_timestamp")\<close> tells the first call from the others); both are set
  together. The pacer's state is therefore an optional record.
\<close>

record pacer =
  start :: real
  timestamp :: int

text \<open>
  What one call does: the pair it returns, the argument it hands to \<open>asyncio.sleep\<close>
  (\<open>None\<close> when it does not call it, which is the first call), and the attributes
  afterwards.
\<close>

record pacer_call =
  returned_timestamp :: int
  returned_time_base :: rat
  sleep_argument :: "real option"
  pacer_after :: pacer

text \<open>
  \<open>next_timestamp\<close>. The clock \<open>time.time()\<close> is read once in either branch; its reading
  is the parameter \<open>now\<close>. The value \<open>wait\<close> goes to \<open>asyncio.sleep\<close> as it is computed.
\<close>

definition next_timestamp :: "real \<Rightarrow> pacer option \<Rightarrow> pacer_call" where
  "next_timestamp now st =
     (case st of
        Some p \<Rightarrow>
          (let ts = timestamp p + py_int (VIDEO_PTIME * of_int VIDEO_CLOCK_RATE);
               wait = start p + (of_int ts / of_int VIDEO_CLOCK_RATE) - now
           in \<lparr>returned_timestamp = ts, returned_time_base = VIDEO_TIME_BASE,
               sleep_argument = Some wait, pacer_after = p\<lparr>timestamp := ts\<rparr>\<rparr>)
      | None \<Rightarrow>
          \<lparr>returned_timestamp = 0, returned_time_base = VIDEO_TIME_BASE,
           sleep_argument = None, pacer_after = \<lparr>start = now, timestamp = 0\<rparr>\<rparr>)"

text \<open>
  The wall-clock instant at which the frame with the pacer's current timestamp is due:
  \<open>_start + _timestamp / VIDEO_CLOCK_RATE\<close>.
\<close>

definition ideal_instant :: "pacer \<Rightarrow> real" where
  "ideal_instant p = start p + of_int (timestamp p) / of_int VIDEO_CLOCK_RATE"

text \<open>
  Successive calls on one track, one clock reading per call: the list of what each call
  did, in order.
\<close>

primrec pacer_calls :: "real list \<Rightarrow> pacer option \<Rightarrow> pacer_call list" where
  "pacer_calls [] st = []"
| "pacer_calls (now # nows) st =
     next_timestamp now st # pacer_calls nows (Some (pacer_after (next_timestamp now st)))"

section \<open>Python values on the data channel\<close>

text \<open>
  The values \<open>ast.literal_eval\<close> can return: strings, bytes, numbers, tuples, lists,
  dictionaries, sets, booleans, \<open>None\<close> and \<open>Ellipsis\<close>. Integers are exact, as in
  Python. A float or complex entry is carried as the number it denotes, and the arithmetic
  on such entries is exact in the model, where Python rounds and raises \<open>OverflowError\<close>
  on a result out of range; no theorem below gives the value computed from a float or
  complex entry. A dictionary is the list of its entries in display order; a later entry
  overrides an earlier one with an equal key, which \<open>dict_get\<close> implements by taking the
  last match.
\<close>

datatype pyval =
    PNone
  | PEllipsis
  | PBool bool
  | PInt int
  | PFloat real
  | PComplex complex
  | PStr string
  | PBytes string
  | PTuple "pyval list"
  | PList "pyval list"
  | PSet "pyval list"
  | PDict "(pyval \<times> pyval) list"

text \<open>The exceptions that appear in the model.\<close>

datatype pyerror = SyntaxError | ValueError | TypeError | KeyError | OverflowError

text \<open>Looking a \<open>str\<close> key up among the entries of a dictionary: the last match.\<close>

primrec dict_get :: "(pyval \<times> pyval) list \<Rightarrow> string \<Rightarrow> pyval option" where
  "dict_get [] k = None"
| "dict_get (e # es) k =
     (case dict_get es k of
        Some v \<Rightarrow> Some v
      | None \<Rightarrow> (if fst e = PStr k then Some (snd e) else None))"

text \<open>
  The subscription \<open>v["k"]\<close> with a \<open>str\<close> key: \<open>KeyError\<close> on a dictionary without the
  key, \<open>TypeError\<close> on every other value (sequences take integer indices, the rest is not
  subscriptable).
\<close>

definition getitem :: "pyval \<Rightarrow> string \<Rightarrow> pyerror + pyval" where
  "getitem v k =
     (case v of
        PDict es \<Rightarrow> (case dict_get es k of Some w \<Rightarrow> Inr w | None \<Rightarrow> Inl KeyError)
      | _ \<Rightarrow> Inl TypeError)"

text \<open>
  Numbers as the arithmetic of \<open>compute_error\<close> sees them. \<open>v - a\<close> with an \<open>int\<close>
  \<open>a\<close> is defined for \<open>int\<close>, \<open>bool\<close> (a subclass of \<open>int\<close>), \<open>float\<close> and
  \<open>complex\<close>, and is a \<open>TypeError\<close> for every other literal value.
\<close>

datatype pynum = NInt int | NFloat real | NComplex complex

definition minus_int :: "pyval \<Rightarrow> int \<Rightarrow> pyerror + pynum" where
  "minus_int v a =
     (case v of
        PInt i \<Rightarrow> Inr (NInt (i - a))
      | PBool b \<Rightarrow> Inr (NInt ((if b then 1 else 0) - a))
      | PFloat f \<Rightarrow> Inr (NFloat (f - of_int a))
      | PComplex c \<Rightarrow> Inr (NComplex (c - of_int a))
      | _ \<Rightarrow> Inl TypeError)"

fun squared :: "pynum \<Rightarrow> pynum" where
  "squared (NInt i) = NInt (i ^ 2)"
| "squared (NFloat f) = NFloat (f ^ 2)"
| "squared (NComplex c) = NComplex (c ^ 2)"

fun plus_num :: "pynum \<Rightarrow> pynum \<Rightarrow> pynum" where
  "plus_num (NInt i) (NInt j) = NInt (i + j)"
| "plus_num (NInt i) (NFloat g) = NFloat (of_int i + g)"
| "plus_num (NFloat f) (NInt j) = NFloat (f + of_int j)"
| "plus_num (NFloat f) (NFloat g) = NFloat (f + g)"
| "plus_num (NInt i) (NComplex d) = NComplex (of_int i + d)"
| "plus_num (NFloat f) (NComplex d) = NComplex (of_real f + d)"
| "plus_num (NComplex c) (NInt j) = NComplex (c + of_int j)"
| "plus_num (NComplex c) (NFloat g) = NComplex (c + of_real g)"
| "plus_num (NComplex c) (NComplex d) = NComplex (c + d)"

text \<open>
  \<open>math.sqrt\<close> first converts its argument to a float. An \<open>int\<close> converts, with
  rounding to nearest and ties to even, exactly when its magnitude is below
  \<open>2^1024 - 2^970\<close> (the largest float is \<open>2^1024 - 2^971\<close>, and from halfway to
  \<open>2^1024\<close> on the conversion raises \<open>OverflowError\<close>: "int too large to convert to
  float").
\<close>

definition too_large_for_float :: "int \<Rightarrow> bool" where
  "too_large_for_float i \<longleftrightarrow> 2 ^ 1024 - 2 ^ 970 \<le> \<bar>i\<bar>"

text \<open>
  \<open>math.sqrt\<close>: a \<open>TypeError\<close> on a complex number; on an \<open>int\<close> the
  \<open>OverflowError\<close> of the conversion, which comes before the test of the sign; a
  \<open>ValueError\<close> on a negative number; the square root otherwise. Python returns the
  float nearest to the root; the model returns the root itself.
\<close>

fun math_sqrt :: "pynum \<Rightarrow> pyerror + real" where
  "math_sqrt (NInt i) =
     (if too_large_for_float i then Inl OverflowError
      else if i < 0 then Inl ValueError
      else Inr (sqrt (of_int i)))"
| "math_sqrt (NFloat f) = (if f < 0 then Inl ValueError else Inr (sqrt f))"
| "math_sqrt (NComplex c) = Inl TypeError"

section \<open>Server: the error metric and the message handler (server.py, class Server)\<close>

text \<open>
  \<open>compute_error\<close>, in Python's evaluation order: \<open>client_coordinate["x"]\<close>, the
  difference and its square, then the same for \<open>"y"\<close>, the sum, the square root. The
  first exception ends the call. The log line is written after the distance is known; it
  is part of \<open>on_message\<close>'s record below.
\<close>

definition compute_error :: "BouncingBallTrack \<Rightarrow> pyval \<Rightarrow> pyerror + real" where
  "compute_error balltrack client_coordinate =
     (let actual_x = position_x balltrack;
          actual_y = position_y balltrack
      in case getitem client_coordinate ''x'' of
           Inl e \<Rightarrow> Inl e
         | Inr vx \<Rightarrow>
             (case minus_int vx actual_x of
                Inl e \<Rightarrow> Inl e
              | Inr dx \<Rightarrow>
                  (case getitem client_coordinate ''y'' of
                     Inl e \<Rightarrow> Inl e
                   | Inr vy \<Rightarrow>
                       (case minus_int vy actual_y of
                          Inl e \<Rightarrow> Inl e
                        | Inr dy \<Rightarrow> math_sqrt (plus_num (squared dx) (squared dy))))))"

text \<open>The dictionary \<open>{"x": x, "y": y}\<close> with integer entries, as a Python value.\<close>

definition xy_dict :: "int \<Rightarrow> int \<Rightarrow> pyval" where
  "xy_dict x y = PDict [(PStr ''x'', PInt x), (PStr ''y'', PInt y)]"

text \<open>
  A message on the data channel is a \<open>str\<close> or a \<open>bytes\<close> object. The handler's
  observable effects are the log lines it writes and the exception it raises, if any.
\<close>

datatype message = Text string | Binary string

datatype log_line =
    Received pyval
  | Computed int int real

record handled =
  logged :: "log_line list"
  raised :: "pyerror option"

text \<open>
  \<open>on_message\<close>, the handler registered in \<open>run_offer\<close>. The literal evaluator is a
  Python library function and is a parameter here. A message that is not a \<open>str\<close> fails
  the \<open>isinstance\<close> test and nothing happens. The handler catches nothing, so an
  exception of the evaluator or of \<open>compute_error\<close> leaves it.
\<close>

definition on_message ::
  "(string \<Rightarrow> pyerror + pyval) \<Rightarrow> BouncingBallTrack \<Rightarrow> message \<Rightarrow> handled" where
  "on_message lit balltrack msg =
     (case msg of
        Binary b \<Rightarrow> \<lparr>logged = [], raised = None\<rparr>
      | Text m \<Rightarrow>
          (case lit m of
             Inl e \<Rightarrow> \<lparr>logged = [], raised = Some e\<rparr>
           | Inr client_coordinate \<Rightarrow>
               (case compute_error balltrack client_coordinate of
                  Inl e \<Rightarrow> \<lparr>logged = [Received client_coordinate], raised = Some e\<rparr>
                | Inr distance \<Rightarrow>
                    \<lparr>logged = [Received client_coordinate,
                               Computed (position_x balltrack) (position_y balltrack) distance],
                     raised = None\<rparr>)))"

text \<open>
  What the specification calls a message parseable as an (x, y) pair, in the widest sense
  the handler supports: a \<open>str\<close> whose literal value is a dictionary with real-number
  entries \<open>"x"\<close> and \<open>"y"\<close>.
\<close>

definition is_real_number :: "pyval \<Rightarrow> bool" where
  "is_real_number v = (case v of PInt i \<Rightarrow> True | PBool b \<Rightarrow> True | PFloat f \<Rightarrow> True | _ \<Rightarrow> False)"

definition coordinate_pair :: "pyval \<Rightarrow> bool" where
  "coordinate_pair v =
     (case v of
        PDict es \<Rightarrow>
          (case (dict_get es ''x'', dict_get es ''y'') of
             (Some a, Some b) \<Rightarrow> is_real_number a \<and> is_real_number b
           | _ \<Rightarrow> False)
      | _ \<Rightarrow> False)"

definition parseable_xy :: "(string \<Rightarrow> pyerror + pyval) \<Rightarrow> message \<Rightarrow> bool" where
  "parseable_xy lit msg =
     (case msg of
        Binary b \<Rightarrow> False
      | Text m \<Rightarrow> (case lit m of Inl e \<Rightarrow> False | Inr v \<Rightarrow> coordinate_pair v))"

section \<open>Client: the coordinate reporter (client.py, class Client)\<close>

text \<open>
  What \<open>ImageParser.run\<close> puts on the coordinate queue is a dictionary with the two keys
  \<open>"x"\<close> and \<open>"y"\<close>, in this order, and \<open>int\<close> values (read from two
  \<open>mp.Value("i")\<close> cells): an association list from \<open>str\<close> keys to integers.
\<close>

type_synonym coordinates = "(string \<times> int) list"

definition detected :: "int \<Rightarrow> int \<Rightarrow> coordinates" where
  "detected x y = [(''x'', x), (''y'', y)]"

text \<open>
  Python's \<open>str\<close> of an integer: a minus sign for a negative number, then the decimal
  digits without leading zeros. (Python's default limit of 4300 digits on this conversion
  is not modelled; the client's integers come from 32-bit cells.)
\<close>

definition digit_char :: "nat \<Rightarrow> char" where
  "digit_char d = char_of (48 + d)"

fun str_nat :: "nat \<Rightarrow> string" where
  "str_nat n =
     (if 10 \<le> n then str_nat (n div 10) @ [digit_char (n mod 10)] else [digit_char n])"

declare str_nat.simps [simp del]

definition str_int :: "int \<Rightarrow> string" where
  "str_int i = (if i < 0 then CHR ''-'' # str_nat (nat (- i)) else str_nat (nat i))"

text \<open>
  Python's \<open>str\<close> of a dictionary whose keys are strings of plain characters (no quote,
  no backslash, nothing to escape) and whose values are integers: the entries as
  \<open>'key': value\<close>, separated by a comma and a space, in braces.
\<close>

definition quote :: char where
  "quote = CHR 0x27"

definition str_item :: "string \<times> int \<Rightarrow> string" where
  "str_item kv = [quote] @ fst kv @ [quote] @ '': '' @ str_int (snd kv)"

fun join_items :: "string list \<Rightarrow> string" where
  "join_items [] = []"
| "join_items [a] = a"
| "join_items (a # b # r) = a @ '', '' @ join_items (b # r)"

definition str_dict :: "coordinates \<Rightarrow> string" where
  "str_dict d = ''{'' @ join_items (map str_item d) @ ''}''"

text \<open>
  The data channel as the client sees it: its label, its \<open>readyState\<close> (a string, compared
  with \<open>"open"\<close>), and the messages handed to \<open>send\<close> so far.
\<close>

record RTCDataChannel =
  label :: string
  readyState :: string
  sent :: "string list"

text \<open>
  The attributes of a \<open>Client\<close>. \<open>channel\<close> is \<open>None\<close> until the \<open>datachannel\<close>
  callback stores the channel. The image queue holds frames for the detection process.
\<close>

record Client =
  image_queue :: "canvas list"
  coordinate_queue :: "coordinates list"
  channel :: "RTCDataChannel option"

definition Client_init :: Client where
  "Client_init = \<lparr>image_queue = [], coordinate_queue = [], channel = None\<rparr>"

text \<open>
  One iteration of the \<open>while True\<close> loop of \<open>send_coordinates_to_server\<close>, up to its
  \<open>asyncio.sleep(0.01)\<close>. The condition is evaluated left to right: the channel is set
  (a channel object is true), its state is \<open>"open"\<close>, the queue is not empty. Then one
  element is taken from the head of the queue and its \<open>str\<close> is sent. (Under the
  condition the queue has a head; on an empty queue Python's \<open>get\<close> would block.)
\<close>

definition may_send :: "Client \<Rightarrow> bool" where
  "may_send c =
     (case channel c of
        None \<Rightarrow> False
      | Some ch \<Rightarrow> readyState ch = ''open'' \<and> coordinate_queue c \<noteq> [])"

definition send_coordinates_iteration :: "Client \<Rightarrow> Client" where
  "send_coordinates_iteration c =
     (case channel c of
        None \<Rightarrow> c
      | Some ch \<Rightarrow>
          (if readyState ch = ''open'' \<and> coordinate_queue c \<noteq> []
           then (case coordinate_queue c of
                   [] \<Rightarrow> c
                 | coordinates # rest \<Rightarrow>
                     c\<lparr>coordinate_queue := rest,
                       channel := Some (ch\<lparr>sent := sent ch @ [str_dict coordinates]\<rparr>)\<rparr>)
           else c))"

text \<open>
  A client whose channel is still connecting while one detected coordinate is waiting.
\<close>

definition waiting_client :: Client where
  "waiting_client =
     \<lparr>image_queue = [], coordinate_queue = [detected 10 20],
      channel = Some \<lparr>label = ''coordinates'', readyState = ''connecting'', sent = []\<rparr>\<rparr>"

text \<open>The messages the client has sent so far: none while there is no channel.\<close>

definition outbox :: "Client \<Rightarrow> string list" where
  "outbox c = (case channel c of None \<Rightarrow> [] | Some ch \<Rightarrow> sent ch)"

section \<open>Literal evaluation of a received message\<close>

text \<open>
  \<open>ast.literal_eval\<close> belongs to Python's library, not to the repository. It is modelled
  on a fragment of the literal syntax that contains everything the client sends: decimal
  integers with an optional sign, strings of plain characters in single or double quotes
  (no escapes, no prefixes), and dictionary displays whose keys and values are such atoms,
  with spaces anywhere between tokens. \<open>parse_literal\<close> answers \<open>Some v\<close> only where
  Python's evaluator returns \<open>v\<close>; \<open>None\<close> stands for a syntax error as well as for a
  literal outside the fragment (a float, a list, a nested container, an escape).
\<close>

datatype token =
    TLBrace | TRBrace | TColon | TComma | TMinus | TPlus
  | TNumber nat
  | TString string

definition is_digit :: "char \<Rightarrow> bool" where
  "is_digit c \<longleftrightarrow> (48::nat) \<le> of_char c \<and> of_char c \<le> (57::nat)"

definition digit_value :: "char \<Rightarrow> nat" where
  "digit_value c = of_char c - 48"

definition nat_of_digits :: "string \<Rightarrow> nat" where
  "nat_of_digits ds = foldl (\<lambda>a c. 10 * a + digit_value c) 0 ds"

text \<open>Printable ASCII other than the backslash.\<close>

definition plain_char :: "char \<Rightarrow> bool" where
  "plain_char c \<longleftrightarrow> (32::nat) \<le> of_char c \<and> of_char c \<le> (126::nat) \<and> c \<noteq> CHR 0x5C"

text \<open>
  The tokens of a text. A number is a maximal run of digits and may not start with a zero
  unless it is the single digit zero; a string runs to the next occurrence of its opening
  quote.
\<close>

function tokenize :: "string \<Rightarrow> token list option" where
  "tokenize [] = Some []"
| "tokenize (c # cs) =
     (if c = CHR '' '' then tokenize cs
      else if c = CHR ''{'' then map_option (Cons TLBrace) (tokenize cs)
      else if c = CHR ''}'' then map_option (Cons TRBrace) (tokenize cs)
      else if c = CHR '':'' then map_option (Cons TColon) (tokenize cs)
      else if c = CHR '','' then map_option (Cons TComma) (tokenize cs)
      else if c = CHR ''-'' then map_option (Cons TMinus) (tokenize cs)
      else if c = CHR ''+'' then map_option (Cons TPlus) (tokenize cs)
      else if is_digit c then
        (if c = CHR ''0'' \<and> takeWhile is_digit cs \<noteq> [] then None
         else map_option (Cons (TNumber (nat_of_digits (c # takeWhile is_digit cs))))
                (tokenize (dropWhile is_digit cs)))
      else if c = quote \<or> c = CHR 0x22 then
        (if dropWhile (\<lambda>k. k \<noteq> c) cs = []
            \<or> \<not> list_all plain_char (takeWhile (\<lambda>k. k \<noteq> c) cs)
         then None
         else map_option (Cons (TString (takeWhile (\<lambda>k. k \<noteq> c) cs)))
                (tokenize (tl (dropWhile (\<lambda>k. k \<noteq> c) cs))))
      else None)"
  by pat_completeness auto
termination
proof (relation "measure length")
  show "wf (measure length)" by simp
next
  fix c :: char and cs :: string
  have "length (dropWhile is_digit cs) \<le> length cs"
    by (rule length_dropWhile_le)
  then show "(dropWhile is_digit cs, c # cs) \<in> measure length" by simp
next
  fix c :: char and cs :: string
  have "length (tl (dropWhile (\<lambda>k. k \<noteq> c) cs)) \<le> length (dropWhile (\<lambda>k. k \<noteq> c) cs)"
    by simp
  also have "\<dots> \<le> length cs"
    by (rule length_dropWhile_le)
  finally show "(tl (dropWhile (\<lambda>k. k \<noteq> c) cs), c # cs) \<in> measure length" by simp
qed simp_all

text \<open>An atom: a number with at most one sign, or a string.\<close>

fun parse_atom :: "token list \<Rightarrow> (pyval \<times> token list) option" where
  "parse_atom (TNumber n # r) = Some (PInt (int n), r)"
| "parse_atom (TMinus # TNumber n # r) = Some (PInt (- int n), r)"
| "parse_atom (TPlus # TNumber n # r) = Some (PInt (int n), r)"
| "parse_atom (TString s # r) = Some (PStr s, r)"
| "parse_atom _ = None"

definition parse_entry :: "token list \<Rightarrow> ((pyval \<times> pyval) \<times> token list) option" where
  "parse_entry ts =
     (case parse_atom ts of
        Some (k, TColon # r) \<Rightarrow>
          (case parse_atom r of Some (v, r') \<Rightarrow> Some ((k, v), r') | None \<Rightarrow> None)
      | _ \<Rightarrow> None)"

lemma parse_atom_shorter: "parse_atom ts = Some (v, r) \<Longrightarrow> length r < length ts"
  by (induction ts rule: parse_atom.induct) auto

lemma parse_entry_shorter: "parse_entry ts = Some (kv, r) \<Longrightarrow> length r < length ts"
  unfolding parse_entry_def
  by (auto split: option.splits prod.splits list.splits token.splits dest!: parse_atom_shorter)

text \<open>
  The entries of a dictionary display after its opening brace, up to and including the
  closing brace; one trailing comma is allowed.
\<close>

function parse_entries :: "token list \<Rightarrow> ((pyval \<times> pyval) list \<times> token list) option" where
  "parse_entries ts =
     (case parse_entry ts of
        None \<Rightarrow> None
      | Some (kv, r) \<Rightarrow>
          (case r of
             TRBrace # r' \<Rightarrow> Some ([kv], r')
           | TComma # TRBrace # r' \<Rightarrow> Some ([kv], r')
           | TComma # r' \<Rightarrow> map_option (apfst (Cons kv)) (parse_entries r')
           | _ \<Rightarrow> None))"
  by pat_completeness auto
termination
  by (relation "measure length") (auto dest!: parse_entry_shorter)

declare parse_entries.simps [simp del]

definition parse_value :: "token list \<Rightarrow> pyval option" where
  "parse_value ts =
     (case ts of
        TLBrace # TRBrace # r \<Rightarrow> (if r = [] then Some (PDict []) else None)
      | TLBrace # r \<Rightarrow>
          (case parse_entries r of
             Some (es, r') \<Rightarrow> (if r' = [] then Some (PDict es) else None)
           | None \<Rightarrow> None)
      | _ \<Rightarrow>
          (case parse_atom ts of
             Some (v, r') \<Rightarrow> (if r' = [] then Some v else None)
           | None \<Rightarrow> None))"

definition parse_literal :: "string \<Rightarrow> pyval option" where
  "parse_literal s = Option.bind (tokenize s) parse_value"

text \<open>
  Two notions for the proofs about the tokens of a printed integer: a text at which a run
  of digits ends, and the tokens of \<open>str\<close> of an integer.
\<close>

definition stops_number :: "string \<Rightarrow> bool" where
  "stops_number rest \<longleftrightarrow> (case rest of [] \<Rightarrow> True | c # cs \<Rightarrow> \<not> is_digit c)"

definition int_tokens :: "int \<Rightarrow> token list" where
  "int_tokens i = (if i < 0 then [TMinus, TNumber (nat (- i))] else [TNumber (nat i)])"

text \<open>
  The evaluator used where a theorem needs a concrete one. Its values on text inside the
  fragment are Python's. On all other text it answers \<open>SyntaxError\<close>, where Python may
  raise this or another exception or return a value outside the fragment; the theorems
  about arbitrary messages take the evaluator as a parameter and do not depend on this
  choice.
\<close>

definition literal_eval :: "string \<Rightarrow> pyerror + pyval" where
  "literal_eval s = (case parse_literal s of Some v \<Rightarrow> Inr v | None \<Rightarrow> Inl SyntaxError)"

section \<open>Signaling (server.py and client.py, consume_signaling)\<close>

text \<open>
  What \<open>signaling.receive()\<close> can return: a session description (whose \<open>type\<close> is one of
  four strings), an ICE candidate, the \<open>BYE\<close> object, or something else (\<open>None\<close> when the
  connection is gone). Descriptions and candidates are opaque to the loop apart from the
  description's type.
\<close>

datatype sdp_type = Offer | Answer | Pranswer | Rollback

record RTCSessionDescription =
  sdp :: string
  sdp_type :: sdp_type

type_synonym RTCIceCandidate = string

datatype signal =
    Description RTCSessionDescription
  | Candidate RTCIceCandidate
  | BYE
  | Nothing

text \<open>
  The peer connection is a collaborator (aiortc's \<open>RTCPeerConnection\<close>): the loop only
  calls it. It is a parameter of the model, a record of the operations the loop uses, each
  of which may raise; \<open>'pc\<close> is the connection's state.
\<close>

record 'pc MediaSession =
  setRemoteDescription :: "RTCSessionDescription \<Rightarrow> 'pc \<Rightarrow> pyerror + 'pc"
  setLocalDescription :: "RTCSessionDescription \<Rightarrow> 'pc \<Rightarrow> pyerror + 'pc"
  createOffer :: "'pc \<Rightarrow> pyerror + RTCSessionDescription"
  createAnswer :: "'pc \<Rightarrow> pyerror + RTCSessionDescription"
  localDescription :: "'pc \<Rightarrow> RTCSessionDescription option"
  addIceCandidate :: "RTCIceCandidate \<Rightarrow> 'pc \<Rightarrow> pyerror + 'pc"

text \<open>
  The state of a negotiation: the connection, what has been handed to \<open>signaling.send\<close>,
  and whether the loop has been left through \<open>break\<close>.
\<close>

record 'pc negotiation =
  session :: 'pc
  signaled :: "RTCSessionDescription option list"
  finished :: bool

text \<open>
  \<open>consume_signaling\<close>, the same code in \<open>Server\<close> and \<open>Client\<close>, run on the objects
  that \<open>receive\<close> returns one after the other. Every description is applied as the remote
  one; an offer is answered; a candidate is added; \<open>BYE\<close> ends the loop; anything else is
  skipped. There is no other test and no \<open>raise\<close>: an exception can only come out of the
  connection. When the input is used up the loop is waiting in \<open>receive\<close>.
\<close>

fun consume_signaling ::
  "'pc MediaSession \<Rightarrow> signal list \<Rightarrow> 'pc negotiation \<Rightarrow> pyerror + 'pc negotiation" where
  "consume_signaling api [] st = Inr st"
| "consume_signaling api (obj # rest) st =
     (case obj of
        Description d \<Rightarrow>
          (case setRemoteDescription api d (session st) of
             Inl e \<Rightarrow> Inl e
           | Inr pc1 \<Rightarrow>
               (if sdp_type d = Offer
                then (case createAnswer api pc1 of
                        Inl e \<Rightarrow> Inl e
                      | Inr a \<Rightarrow>
                          (case setLocalDescription api a pc1 of
                             Inl e \<Rightarrow> Inl e
                           | Inr pc2 \<Rightarrow>
                               consume_signaling api rest
                                 (st\<lparr>session := pc2,
                                    signaled := signaled st @ [localDescription api pc2]\<rparr>)))
                else consume_signaling api rest (st\<lparr>session := pc1\<rparr>)))
      | Candidate c \<Rightarrow>
          (case addIceCandidate api c (session st) of
             Inl e \<Rightarrow> Inl e
           | Inr pc1 \<Rightarrow> consume_signaling api rest (st\<lparr>session := pc1\<rparr>))
      | BYE \<Rightarrow> Inr (st\<lparr>finished := True\<rparr>)
      | Nothing \<Rightarrow> consume_signaling api rest st)"

text \<open>
  \<open>Client.run_answer\<close> registers its two callbacks and runs the loop. \<open>Server.run_offer\<close>
  creates the data channel and the track (neither touches a description), applies the
  offer it creates as the local description, sends it, and runs the loop.
\<close>

definition run_answer ::
  "'pc MediaSession \<Rightarrow> signal list \<Rightarrow> 'pc \<Rightarrow> pyerror + 'pc negotiation" where
  "run_answer api inputs pc =
     consume_signaling api inputs \<lparr>session = pc, signaled = [], finished = False\<rparr>"

definition run_offer ::
  "'pc MediaSession \<Rightarrow> signal list \<Rightarrow> 'pc \<Rightarrow> pyerror + 'pc negotiation" where
  "run_offer api inputs pc =
     (case createOffer api pc of
        Inl e \<Rightarrow> Inl e
      | Inr off \<Rightarrow>
          (case setLocalDescription api off pc of
             Inl e \<Rightarrow> Inl e
           | Inr pc1 \<Rightarrow>
               consume_signaling api inputs
                 \<lparr>session = pc1, signaled = [localDescription api pc1], finished = False\<rparr>))"

text \<open>
  A stand-in for the connection that accepts every call and records what it was given, in
  the way the client's test stands a mock in for the channel.
\<close>

record session_log =
  remote_applied :: "RTCSessionDescription list"
  local_applied :: "RTCSessionDescription list"
  candidates_added :: "RTCIceCandidate list"

definition fresh_session :: session_log where
  "fresh_session = \<lparr>remote_applied = [], local_applied = [], candidates_added = []\<rparr>"

definition recording_session :: "session_log MediaSession" where
  "recording_session =
     \<lparr>setRemoteDescription = (\<lambda>d pc. Inr (pc\<lparr>remote_applied := remote_applied pc @ [d]\<rparr>)),
      setLocalDescription = (\<lambda>d pc. Inr (pc\<lparr>local_applied := local_applied pc @ [d]\<rparr>)),
      createOffer = (\<lambda>pc. Inr \<lparr>sdp = ''offer'', sdp_type = Offer\<rparr>),
      createAnswer = (\<lambda>pc. Inr \<lparr>sdp = ''answer'', sdp_type = Answer\<rparr>),
      localDescription =
        (\<lambda>pc. if local_applied pc = [] then None else Some (last (local_applied pc))),
      addIceCandidate = (\<lambda>c pc. Inr (pc\<lparr>candidates_added := candidates_added pc @ [c]\<rparr>))\<rparr>"

text \<open>
  The part of the input the loop reads (up to the first \<open>BYE\<close>), and the descriptions,
  offers and candidates in it.
\<close>

definition before_bye :: "signal list \<Rightarrow> signal list" where
  "before_bye inputs = takeWhile (\<lambda>obj. obj \<noteq> BYE) inputs"

fun descriptions :: "signal list \<Rightarrow> RTCSessionDescription list" where
  "descriptions [] = []"
| "descriptions (Description d # rest) = d # descriptions rest"
| "descriptions (obj # rest) = descriptions rest"

fun candidates :: "signal list \<Rightarrow> RTCIceCandidate list" where
  "candidates [] = []"
| "candidates (Candidate c # rest) = c # candidates rest"
| "candidates (obj # rest) = candidates rest"

definition offers :: "signal list \<Rightarrow> RTCSessionDescription list" where
  "offers inputs = filter (\<lambda>d. sdp_type d = Offer) (descriptions inputs)"

text \<open>Two offers, for a peer that sends a second one.\<close>

definition offer1 :: RTCSessionDescription where
  "offer1 = \<lparr>sdp = ''first offer'', sdp_type = Offer\<rparr>"

definition offer2 :: RTCSessionDescription where
  "offer2 = \<lparr>sdp = ''second offer'', sdp_type = Offer\<rparr>"

section \<open>The simulator: containment and the first bounce\<close>

text \<open>What one tick does to each field; the two axes do not interact.\<close>

lemma tick_fields:
  "screen_size (tick s) = screen_size s"
  "ball_radius (tick s) = ball_radius s"
  "position_x (tick s) = position_x s + speed_x s"
  "position_y (tick s) = position_y s + speed_y s"
  by (simp_all add: tick_def get_next_image_def update_delta_with_bound_def Let_def)

lemma tick_speed_x:
  "speed_x (tick s) =
     (if position_x s + speed_x s + ball_radius s \<ge> fst (screen_size s)
         \<or> position_x s + speed_x s - ball_radius s \<le> 0
      then - speed_x s else speed_x s)"
  by (simp add: tick_def get_next_image_def update_delta_with_bound_def Let_def)

lemma tick_speed_y:
  "speed_y (tick s) =
     (if position_y s + speed_y s + ball_radius s \<ge> snd (screen_size s)
         \<or> position_y s + speed_y s - ball_radius s \<le> 0
      then - speed_y s else speed_y s)"
  by (simp add: tick_def get_next_image_def update_delta_with_bound_def Let_def)

text \<open>The start condition is kept by a tick, hence by any number of ticks.\<close>

lemma axis_ok_step:
  assumes "axis_ok b r p v"
  shows "axis_ok b r (p + v) (if p + v + r \<ge> b \<or> p + v - r \<le> 0 then - v else v)"
  using assms unfolding axis_ok_def unit_speed_def by auto

lemma inward_start_tick: "inward_start s \<Longrightarrow> inward_start (tick s)"
  unfolding inward_start_def tick_fields tick_speed_x tick_speed_y
  by (blast intro: axis_ok_step)

lemma inward_start_ticks: "inward_start s \<Longrightarrow> inward_start (ticks n s)"
  by (induction n arbitrary: s) (simp_all add: inward_start_tick)

lemma inward_start_within: "inward_start s \<Longrightarrow> within_bounds s"
  by (simp add: inward_start_def axis_ok_def within_bounds_def)

lemma init_fields:
  "screen_size BouncingBallTrack_init = (640, 480)"
  "position_x BouncingBallTrack_init = 320"
  "position_y BouncingBallTrack_init = 240"
  "speed_x BouncingBallTrack_init = 1"
  "speed_y BouncingBallTrack_init = 1"
  "ball_radius BouncingBallTrack_init = 20"
  by (simp_all add: BouncingBallTrack_init_def SCREEN_HEIGHT_def SCREEN_WIDTH_def)

lemma inward_start_init: "inward_start BouncingBallTrack_init"
  by (simp add: inward_start_def axis_ok_def unit_speed_def init_fields)

text \<open>
  Claim C1 as stated fails: a ball that starts on the line \<open>x = 620\<close> (which respects the
  radius: \<open>620 + 20 = 640\<close>) with the constructor's speed \<open>+1\<close> is at \<open>x = 621\<close> after
  one tick, because the position is moved before the boundary is looked at and is never
  clamped.
\<close>

theorem containment_counterexample:
  "within_bounds (BouncingBallTrack_init\<lparr>position_x := 620\<rparr>) \<and>
   position_x (ticks 1 (BouncingBallTrack_init\<lparr>position_x := 620\<rparr>)) = 621 \<and>
   \<not> within_bounds (ticks 1 (BouncingBallTrack_init\<lparr>position_x := 620\<rparr>))"
  by (simp add: within_bounds_def tick_fields init_fields)

text \<open>
  Claim C1, amended: from every start with unit speeds whose centre respects the radius on
  both axes and which does not touch a wall while moving towards it (the constructor's
  start at the centre is one), the centre stays within \<open>[radius, boundary - radius]\<close> on
  both axes after every number of ticks. It holds for every screen size and radius, so also
  for 640, 480 and 20.
\<close>

theorem containment_from_inward_start:
  assumes "inward_start s"
  shows "within_bounds (ticks n s)"
  using assms by (intro inward_start_within inward_start_ticks)

text \<open>The constructor's start satisfies the condition, here for three ticks.\<close>

theorem containment_from_inward_start_witness:
  "inward_start BouncingBallTrack_init \<and> within_bounds (ticks 3 BouncingBallTrack_init)"
  using containment_from_inward_start [OF inward_start_init, of 3] inward_start_init by simp

text \<open>While the ball rises on the x axis below the far boundary it keeps its speed.\<close>

lemma ticks_Suc_right: "ticks (Suc n) s = tick (ticks n s)"
  by (induction n arbitrary: s) simp_all

lemma ticks_screen:
  "screen_size (ticks n s) = screen_size s"
  "ball_radius (ticks n s) = ball_radius s"
  by (induction n arbitrary: s) (simp_all add: tick_fields)

lemma rising_x:
  assumes "speed_x s = 1" and "ball_radius s \<le> position_x s"
    and "position_x s + int k < fst (screen_size s) - ball_radius s"
  shows "position_x (ticks k s) = position_x s + int k \<and> speed_x (ticks k s) = 1"
  using assms
proof (induction k arbitrary: s)
  case 0
  then show ?case by simp
next
  case (Suc k)
  have "speed_x (tick s) = 1"
    using Suc.prems by (simp add: tick_speed_x)
  moreover have "ball_radius (tick s) \<le> position_x (tick s)"
    using Suc.prems by (simp add: tick_fields)
  moreover have "position_x (tick s) + int k < fst (screen_size (tick s)) - ball_radius (tick s)"
    using Suc.prems by (simp add: tick_fields)
  ultimately have
    "position_x (ticks k (tick s)) = position_x (tick s) + int k \<and> speed_x (ticks k (tick s)) = 1"
    by (rule Suc.IH)
  then show ?case using Suc.prems by (simp add: tick_fields)
qed

text \<open>
  Claim C3 as stated fails at its first assertion: the ball does not start at
  \<open>(x, y) = (240, 320)\<close>. \<open>position_x\<close> is half of \<open>screen_size[0] = 640\<close> and
  \<open>position_y\<close> is half of \<open>screen_size[1] = 480\<close>.
\<close>

theorem start_position_counterexample:
  "(position_x BouncingBallTrack_init, position_y BouncingBallTrack_init) \<noteq> (240, 320)"
  by (simp add: init_fields)

text \<open>
  Claim C3, amended: the ball starts at \<open>(x, y) = (320, 240)\<close> in the 640 by 480
  rectangle with radius 20 and speed \<open>(+1, +1)\<close>. Tick 300 is the first at which
  \<open>position_x + 20 \<ge> 640\<close>; up to tick 299 \<open>speed_x\<close> is \<open>+1\<close>, after tick 300 it is
  \<open>-1\<close>, and it is still \<open>-1\<close> after tick 301, which has moved the ball back to 619.
\<close>

theorem first_bounce_x:
  "position_x BouncingBallTrack_init = 320 \<and> position_y BouncingBallTrack_init = 240 \<and>
   screen_size BouncingBallTrack_init = (640, 480) \<and> ball_radius BouncingBallTrack_init = 20 \<and>
   speed_x BouncingBallTrack_init = 1 \<and> speed_y BouncingBallTrack_init = 1 \<and>
   (\<forall>k<300. position_x (ticks k BouncingBallTrack_init) + 20 < 640
             \<and> speed_x (ticks k BouncingBallTrack_init) = 1) \<and>
   position_x (ticks 300 BouncingBallTrack_init) + 20 \<ge> 640 \<and>
   speed_x (ticks 300 BouncingBallTrack_init) = - 1 \<and>
   position_x (ticks 301 BouncingBallTrack_init) = 619 \<and>
   speed_x (ticks 301 BouncingBallTrack_init) = - 1"
proof -
  let ?s = BouncingBallTrack_init
  have run: "position_x (ticks k ?s) = 320 + int k \<and> speed_x (ticks k ?s) = 1"
    if "k < 300" for k
    using rising_x [of ?s k] that by (simp add: init_fields)
  have before: "\<forall>k<300. position_x (ticks k ?s) + 20 < 640 \<and> speed_x (ticks k ?s) = 1"
    using run by auto
  have s299: "position_x (ticks 299 ?s) = 619" "speed_x (ticks 299 ?s) = 1"
    using run [of 299] by simp_all
  have "ticks 300 ?s = tick (ticks 299 ?s)"
    using ticks_Suc_right [of 299 ?s] by simp
  then have s300: "position_x (ticks 300 ?s) = 620" "speed_x (ticks 300 ?s) = - 1"
    using s299 by (simp_all add: tick_fields tick_speed_x ticks_screen init_fields)
  have "ticks 301 ?s = tick (ticks 300 ?s)"
    using ticks_Suc_right [of 300 ?s] by simp
  then have s301: "position_x (ticks 301 ?s) = 619" "speed_x (ticks 301 ?s) = - 1"
    using s300 by (simp_all add: tick_fields tick_speed_x ticks_screen init_fields)
  show ?thesis
    using before s300 s301 by (simp add: init_fields)
qed

text \<open>The tick before the bounce is one of the ticks the quantifier ranges over.\<close>

theorem first_bounce_x_witness:
  "(299::nat) < 300 \<and> position_x (ticks 299 BouncingBallTrack_init) + 20 < 640 \<and>
   speed_x (ticks 299 BouncingBallTrack_init) = 1"
proof -
  have "\<forall>k<300. position_x (ticks k BouncingBallTrack_init) + 20 < 640
             \<and> speed_x (ticks k BouncingBallTrack_init) = 1"
    using first_bounce_x by blast
  then show ?thesis by simp
qed

section \<open>The frame pacer\<close>

text \<open>
  The increment \<open>int(VIDEO_PTIME * VIDEO_CLOCK_RATE)\<close> is 3000, whether the product is
  truncated, as the code does, or rounded.
\<close>

lemma frame_ticks: "py_int (VIDEO_PTIME * of_int VIDEO_CLOCK_RATE) = 3000"
  by (simp add: py_int_def VIDEO_PTIME_def VIDEO_CLOCK_RATE_def)

lemma frame_ticks_round: "round (VIDEO_PTIME * of_int VIDEO_CLOCK_RATE) = 3000"
  by (simp add: VIDEO_PTIME_def VIDEO_CLOCK_RATE_def)

text \<open>
  The float computation gives the same increment. The binary64 number nearest to 1/30 is
  \<open>4803839602528529 / 2^57\<close> (it is within half a unit in the last place, \<open>2^-58\<close>, of
  1/30), and its exact product with 90000 is within \<open>2^-42\<close>, half a unit in the last
  place of numbers between 2048 and 4096, of 3000; so the rounded product is 3000.0.
\<close>

lemma binary64_frame_ticks:
  "\<bar>4803839602528529 / 2 ^ 57 - VIDEO_PTIME\<bar> \<le> 1 / 2 ^ 58 \<and>
   \<bar>4803839602528529 / 2 ^ 57 * of_int VIDEO_CLOCK_RATE - 3000\<bar> < (1 / 2 ^ 42 :: real)"
  by (simp add: VIDEO_PTIME_def VIDEO_CLOCK_RATE_def)

text \<open>The first call and the later calls, field by field.\<close>

lemma next_timestamp_first:
  "returned_timestamp (next_timestamp now None) = 0"
  "sleep_argument (next_timestamp now None) = None"
  "pacer_after (next_timestamp now None) = \<lparr>start = now, timestamp = 0\<rparr>"
  by (simp_all add: next_timestamp_def)

lemma next_timestamp_later:
  "returned_timestamp (next_timestamp now (Some p)) = timestamp p + 3000"
  "sleep_argument (next_timestamp now (Some p)) =
     Some (start p + of_int (timestamp p + 3000) / of_int VIDEO_CLOCK_RATE - now)"
  "pacer_after (next_timestamp now (Some p)) = p\<lparr>timestamp := timestamp p + 3000\<rparr>"
  by (simp_all add: next_timestamp_def frame_ticks Let_def)

text \<open>The timestamps of a run of calls, from a running pacer and from a new track.\<close>

lemma length_pacer_calls: "length (pacer_calls nows st) = length nows"
  by (induction nows arbitrary: st) simp_all

lemma pacer_calls_running:
  "map returned_timestamp (pacer_calls nows (Some p)) =
     map (\<lambda>n. timestamp p + (int n + 1) * 3000) [0..<length nows]"
proof (induction nows arbitrary: p)
  case Nil
  show ?case by simp
next
  case (Cons now nows)
  let ?q = "p\<lparr>timestamp := timestamp p + 3000\<rparr>"
  have "map returned_timestamp (pacer_calls nows (Some ?q)) =
        map (\<lambda>n. timestamp p + 3000 + (int n + 1) * 3000) [0..<length nows]"
    using Cons.IH [of ?q] by simp
  then show ?case
    by (simp add: next_timestamp_later map_upt_Suc algebra_simps del: upt_Suc)
qed

lemma pacer_calls_fresh:
  "map returned_timestamp (pacer_calls nows None) = map (\<lambda>n. int n * 3000) [0..<length nows]"
proof (cases nows)
  case Nil
  then show ?thesis by simp
next
  case (Cons now rest)
  then show ?thesis
    by (simp add: next_timestamp_first pacer_calls_running map_upt_Suc algebra_simps del: upt_Suc)
qed

lemma strictly_increasing_multiples:
  "sorted_wrt (<) (map (\<lambda>n. int n * 3000) [0..<m])"
  by (simp add: sorted_wrt_map sorted_wrt_iff_nth_less)

text \<open>
  Claim C2: the first call returns timestamp 0, and the call made after \<open>n\<close> earlier calls
  returns \<open>n\<close> times \<open>round(VIDEO_PTIME * VIDEO_CLOCK_RATE) = 3000\<close>, whatever the clock
  readings are; so the timestamps of successive calls are strictly increasing and none is
  used twice.
\<close>

theorem pacer_timestamps:
  "returned_timestamp (next_timestamp now None) = 0 \<and>
   map returned_timestamp (pacer_calls nows None) =
     map (\<lambda>n. int n * round (VIDEO_PTIME * of_int VIDEO_CLOCK_RATE)) [0..<length nows] \<and>
   round (VIDEO_PTIME * of_int VIDEO_CLOCK_RATE) = 3000 \<and>
   sorted_wrt (<) (map returned_timestamp (pacer_calls nows None)) \<and>
   distinct (map returned_timestamp (pacer_calls nows None))"
proof -
  have eq: "map returned_timestamp (pacer_calls nows None) =
            map (\<lambda>n. int n * 3000) [0..<length nows]"
    by (rule pacer_calls_fresh)
  have inc: "sorted_wrt (<) (map returned_timestamp (pacer_calls nows None))"
    unfolding eq by (rule strictly_increasing_multiples)
  have "distinct (map returned_timestamp (pacer_calls nows None))"
    using inc by (simp add: strict_sorted_iff)
  with eq inc show ?thesis
    by (simp add: next_timestamp_first frame_ticks_round)
qed

text \<open>
  Claim C7 as stated fails: when the first call is made at time 0 and the second at time 1,
  the second call hands \<open>0 + 3000/90000 - 1 = -29/30\<close> to \<open>asyncio.sleep\<close>, a negative
  duration.
\<close>

theorem negative_sleep_counterexample:
  "sleep_argument (pacer_calls [0, 1] None ! 1) = Some (- (29 / 30)) \<and> - (29 / 30) < (0::real)"
  by (simp add: next_timestamp_first next_timestamp_later VIDEO_CLOCK_RATE_def)

text \<open>
  Claim C7, amended: the first call does not sleep; every later call hands
  \<open>_start + _timestamp / VIDEO_CLOCK_RATE - now\<close> to \<open>asyncio.sleep\<close> unclamped, which is
  negative exactly when the ideal instant of the new timestamp is already past; the pacer
  has no error branch, and the timestamp it returns does not depend on the clock.
\<close>

theorem pacer_sleep_argument:
  "sleep_argument (next_timestamp now None) = None \<and>
   sleep_argument (next_timestamp now (Some p)) =
     Some (ideal_instant (pacer_after (next_timestamp now (Some p))) - now) \<and>
   ((\<exists>w. sleep_argument (next_timestamp now (Some p)) = Some w \<and> w < 0) \<longleftrightarrow>
      ideal_instant (pacer_after (next_timestamp now (Some p))) < now) \<and>
   returned_timestamp (next_timestamp now (Some p)) = timestamp p + 3000 \<and>
   returned_timestamp (next_timestamp later (Some p)) =
     returned_timestamp (next_timestamp now (Some p))"
  by (simp add: next_timestamp_first next_timestamp_later ideal_instant_def)

section \<open>The error metric\<close>

text \<open>
  On a dictionary with integer entries the only exception \<open>compute_error\<close> can raise is
  the \<open>OverflowError\<close> of \<open>math.sqrt\<close>, and it raises it exactly when the squared
  distance is too large for a float.
\<close>

lemma compute_error_xy:
  "compute_error bt (xy_dict x y) =
     (if too_large_for_float ((x - position_x bt) ^ 2 + (y - position_y bt) ^ 2)
      then Inl OverflowError
      else Inr (sqrt (of_int ((x - position_x bt) ^ 2 + (y - position_y bt) ^ 2))))"
  by (simp add: compute_error_def xy_dict_def getitem_def minus_int_def Let_def
      not_sum_power2_lt_zero)

lemma zero_fits_float: "\<not> too_large_for_float 0"
  by (simp add: too_large_for_float_def)

text \<open>
  Claim C4 as stated fails: for the report \<open>{'x': 10**200, 'y': 0}\<close>, which a peer can
  send as a message, and the ground truth of a new track, \<open>compute_error\<close> returns no
  distance; \<open>math.sqrt\<close> raises \<open>OverflowError\<close>, because the squared distance does not
  convert to a float.
\<close>

theorem compute_error_overflow_counterexample:
  "compute_error BouncingBallTrack_init (xy_dict (10 ^ 200) 0) = Inl OverflowError"
  by (simp add: compute_error_xy too_large_for_float_def BouncingBallTrack_init_def
      SCREEN_HEIGHT_def SCREEN_WIDTH_def)

text \<open>
  Claim C4, amended: with ground truth \<open>(position_x, position_y)\<close> and an integer report
  \<open>(x, y)\<close>, \<open>compute_error\<close> returns the Euclidean distance whenever the squared
  distance \<open>(x - position_x)^2 + (y - position_y)^2\<close> is below \<open>2^1024 - 2^970\<close>, and
  raises \<open>OverflowError\<close> otherwise. Under the same bound on \<open>position_x^2 +
  position_y^2\<close> the result for the report \<open>(0, 0)\<close> is the root of that sum. For a report
  equal to the ground truth the result is 0. A result, when there is one, is never
  negative. Exchanging report and ground truth gives the same result or the same
  exception.
\<close>

theorem compute_error_distance:
  "compute_error bt (xy_dict x y) =
     (if too_large_for_float ((x - position_x bt) ^ 2 + (y - position_y bt) ^ 2)
      then Inl OverflowError
      else Inr (sqrt (of_int ((x - position_x bt) ^ 2 + (y - position_y bt) ^ 2)))) \<and>
   compute_error bt (xy_dict 0 0) =
     (if too_large_for_float ((position_x bt) ^ 2 + (position_y bt) ^ 2)
      then Inl OverflowError
      else Inr (sqrt (of_int ((position_x bt) ^ 2 + (position_y bt) ^ 2)))) \<and>
   compute_error bt (xy_dict (position_x bt) (position_y bt)) = Inr 0 \<and>
   (case compute_error bt (xy_dict x y) of Inl e \<Rightarrow> e = OverflowError | Inr d \<Rightarrow> 0 \<le> d) \<and>
   compute_error (bt\<lparr>position_x := x0, position_y := y0\<rparr>) (xy_dict x y) =
     compute_error (bt\<lparr>position_x := x, position_y := y\<rparr>) (xy_dict x0 y0)"
proof -
  have swap: "(x - x0) ^ 2 = (x0 - x) ^ 2" "(y - y0) ^ 2 = (y0 - y) ^ 2"
    by (simp_all add: power2_commute)
  have general: "compute_error bt (xy_dict x y) =
     (if too_large_for_float ((x - position_x bt) ^ 2 + (y - position_y bt) ^ 2)
      then Inl OverflowError
      else Inr (sqrt (of_int ((x - position_x bt) ^ 2 + (y - position_y bt) ^ 2))))"
    by (rule compute_error_xy)
  have origin: "compute_error bt (xy_dict 0 0) =
     (if too_large_for_float ((position_x bt) ^ 2 + (position_y bt) ^ 2)
      then Inl OverflowError
      else Inr (sqrt (of_int ((position_x bt) ^ 2 + (position_y bt) ^ 2))))"
    by (simp add: compute_error_xy)
  have same: "compute_error bt (xy_dict (position_x bt) (position_y bt)) = Inr 0"
    by (simp add: compute_error_xy zero_fits_float)
  have sign: "case compute_error bt (xy_dict x y) of Inl e \<Rightarrow> e = OverflowError | Inr d \<Rightarrow> 0 \<le> d"
    by (simp add: compute_error_xy)
  have sym: "compute_error (bt\<lparr>position_x := x0, position_y := y0\<rparr>) (xy_dict x y) =
     compute_error (bt\<lparr>position_x := x, position_y := y\<rparr>) (xy_dict x0 y0)"
    by (simp add: compute_error_xy swap)
  from general origin same sign sym show ?thesis
    by (intro conjI)
qed

text \<open>
  A report three to the right of and four below the centre of a new track: the squared
  distance 25 converts to a float, and the error is 5.
\<close>

theorem compute_error_distance_witness:
  "\<not> too_large_for_float ((323 - position_x BouncingBallTrack_init) ^ 2
        + (244 - position_y BouncingBallTrack_init) ^ 2) \<and>
   compute_error BouncingBallTrack_init (xy_dict 323 244) = Inr 5"
proof -
  have fits: "\<not> too_large_for_float ((323 - position_x BouncingBallTrack_init) ^ 2
        + (244 - position_y BouncingBallTrack_init) ^ 2)"
    by (simp add: too_large_for_float_def init_fields)
  have root: "sqrt 25 = 5"
    by (rule real_sqrt_unique) simp_all
  have "compute_error BouncingBallTrack_init (xy_dict 323 244) =
     (if too_large_for_float ((323 - position_x BouncingBallTrack_init) ^ 2
          + (244 - position_y BouncingBallTrack_init) ^ 2)
      then Inl OverflowError
      else Inr (sqrt (of_int ((323 - position_x BouncingBallTrack_init) ^ 2
          + (244 - position_y BouncingBallTrack_init) ^ 2))))"
    using compute_error_distance [of BouncingBallTrack_init 323 244] by blast
  with fits have "compute_error BouncingBallTrack_init (xy_dict 323 244) = Inr (sqrt 25)"
    by (simp add: init_fields)
  with fits root show ?thesis
    by simp
qed

section \<open>The coordinate reporter\<close>

text \<open>The loop's condition, and the two things an iteration can do.\<close>

lemma may_send_iff:
  "may_send c \<longleftrightarrow>
     (\<exists>ch. channel c = Some ch \<and> readyState ch = ''open'') \<and> coordinate_queue c \<noteq> []"
  by (auto simp: may_send_def split: option.splits)

lemma iteration_idle: "\<not> may_send c \<Longrightarrow> send_coordinates_iteration c = c"
  by (auto simp: may_send_def send_coordinates_iteration_def split: option.splits)

lemma iteration_sends:
  assumes "may_send c"
  shows "coordinate_queue (send_coordinates_iteration c) = tl (coordinate_queue c)"
    and "outbox (send_coordinates_iteration c) = outbox c @ [str_dict (hd (coordinate_queue c))]"
  using assms
  by (auto simp: may_send_def send_coordinates_iteration_def outbox_def
      split: option.splits list.splits)

text \<open>
  Claim C9: an iteration of the reporting loop sends only if the channel is set, its
  \<open>readyState\<close> is \<open>"open"\<close> and the coordinate queue is not empty; it then takes exactly
  the head of the queue and sends its \<open>str\<close> as one message. Otherwise it sends nothing.
  In no case does an iteration send more than one message.
\<close>

theorem reporter_iteration:
  "(may_send c \<longleftrightarrow>
      (\<exists>ch. channel c = Some ch \<and> readyState ch = ''open'') \<and> coordinate_queue c \<noteq> []) \<and>
   (if may_send c
    then coordinate_queue c =
           hd (coordinate_queue c) # coordinate_queue (send_coordinates_iteration c) \<and>
         outbox (send_coordinates_iteration c) = outbox c @ [str_dict (hd (coordinate_queue c))]
    else outbox (send_coordinates_iteration c) = outbox c) \<and>
   length (outbox (send_coordinates_iteration c)) \<le> length (outbox c) + 1"
proof -
  have guard: "may_send c \<longleftrightarrow>
      (\<exists>ch. channel c = Some ch \<and> readyState ch = ''open'') \<and> coordinate_queue c \<noteq> []"
    by (rule may_send_iff)
  have effect: "if may_send c
    then coordinate_queue c =
           hd (coordinate_queue c) # coordinate_queue (send_coordinates_iteration c) \<and>
         outbox (send_coordinates_iteration c) = outbox c @ [str_dict (hd (coordinate_queue c))]
    else outbox (send_coordinates_iteration c) = outbox c"
  proof (cases "may_send c")
    case True
    then have "coordinate_queue c \<noteq> []"
      by (simp add: may_send_iff)
    with True show ?thesis
      by (simp add: iteration_sends)
  next
    case False
    then show ?thesis
      by (simp add: iteration_idle)
  qed
  have "length (outbox (send_coordinates_iteration c)) \<le> length (outbox c) + 1"
    using effect by (simp split: if_splits)
  with guard effect show ?thesis
    by blast
qed

text \<open>
  Claim C10: an iteration in which the channel is unset, or not open, or the queue is
  empty, changes nothing: the queue keeps its coordinates and nothing is sent.
\<close>

theorem reporter_retains:
  assumes "channel c = None \<or> (\<exists>ch. channel c = Some ch \<and> readyState ch \<noteq> ''open'')
           \<or> coordinate_queue c = []"
  shows "send_coordinates_iteration c = c \<and>
         coordinate_queue (send_coordinates_iteration c) = coordinate_queue c \<and>
         outbox (send_coordinates_iteration c) = outbox c"
proof -
  from assms have "\<not> may_send c"
    by (auto simp: may_send_iff)
  then show ?thesis
    by (simp add: iteration_idle)
qed

text \<open>
  A channel that is still connecting: the detected coordinate stays in the queue.
\<close>

theorem reporter_retains_witness:
  "(\<exists>ch. channel waiting_client = Some ch \<and> readyState ch \<noteq> ''open'') \<and>
   coordinate_queue waiting_client = [detected 10 20] \<and>
   coordinate_queue (send_coordinates_iteration waiting_client) = [detected 10 20] \<and>
   outbox (send_coordinates_iteration waiting_client) = []"
proof -
  have h: "\<exists>ch. channel waiting_client = Some ch \<and> readyState ch \<noteq> ''open''"
    by (simp add: waiting_client_def)
  then have "send_coordinates_iteration waiting_client = waiting_client"
    using reporter_retains [of waiting_client] by blast
  with h show ?thesis
    by (simp add: waiting_client_def outbox_def)
qed

section \<open>Signaling\<close>

text \<open>
  With the session that accepts every call, the loop never fails and hands everything it
  reads before \<open>BYE\<close> to the session: by induction on the input, the state generalised.
\<close>

lemma consume_recording:
  "\<exists>st'. consume_signaling recording_session inputs st = Inr st' \<and>
     remote_applied (session st') =
       remote_applied (session st) @ descriptions (before_bye inputs) \<and>
     length (local_applied (session st')) =
       length (local_applied (session st)) + length (offers (before_bye inputs)) \<and>
     candidates_added (session st') =
       candidates_added (session st) @ candidates (before_bye inputs) \<and>
     length (signaled st') = length (signaled st) + length (offers (before_bye inputs)) \<and>
     finished st' = (finished st \<or> BYE \<in> set inputs)"
proof (induction inputs arbitrary: st)
  case Nil
  show ?case by (simp add: before_bye_def offers_def)
next
  case (Cons obj rest)
  show ?case
  proof (cases obj)
    case (Description d)
    show ?thesis
    proof (cases "sdp_type d = Offer")
      case True
      let ?pc = "session st
                   \<lparr>remote_applied := remote_applied (session st) @ [d],
                    local_applied := local_applied (session st)
                                       @ [\<lparr>sdp = ''answer'', sdp_type = Answer\<rparr>]\<rparr>"
      let ?st = "st\<lparr>session := ?pc,
                    signaled := signaled st @ [localDescription recording_session ?pc]\<rparr>"
      have step: "consume_signaling recording_session (obj # rest) st =
                  consume_signaling recording_session rest ?st"
        using Description True by (simp add: recording_session_def)
      from Cons.IH [of ?st] show ?thesis
        unfolding step using Description True
        by (auto simp: before_bye_def offers_def)
    next
      case False
      let ?st = "st\<lparr>session :=
                      session st\<lparr>remote_applied := remote_applied (session st) @ [d]\<rparr>\<rparr>"
      have step: "consume_signaling recording_session (obj # rest) st =
                  consume_signaling recording_session rest ?st"
        using Description False by (simp add: recording_session_def)
      from Cons.IH [of ?st] show ?thesis
        unfolding step using Description False
        by (auto simp: before_bye_def offers_def)
    qed
  next
    case (Candidate c)
    let ?st = "st\<lparr>session :=
                    session st\<lparr>candidates_added := candidates_added (session st) @ [c]\<rparr>\<rparr>"
    have step: "consume_signaling recording_session (obj # rest) st =
                consume_signaling recording_session rest ?st"
      using Candidate by (simp add: recording_session_def)
    from Cons.IH [of ?st] show ?thesis
      unfolding step using Candidate
      by (auto simp: before_bye_def offers_def)
  next
    case BYE
    then show ?thesis by (simp add: before_bye_def offers_def)
  next
    case Nothing
    with Cons.IH [of st] show ?thesis
      by (auto simp: before_bye_def offers_def)
  qed
qed

text \<open>
  Claim C5 as stated fails: a client that receives two offers applies both as remote
  descriptions and applies two local answers, and the loop ends normally at \<open>BYE\<close>; no
  error is raised. Likewise a server, which has applied its own offer, applies a second
  local description when its peer sends an offer.
\<close>

theorem second_descriptor_counterexample:
  "run_answer recording_session [Description offer1, Description offer2, BYE] fresh_session =
     Inr \<lparr>session = \<lparr>remote_applied = [offer1, offer2],
                     local_applied = [\<lparr>sdp = ''answer'', sdp_type = Answer\<rparr>,
                                      \<lparr>sdp = ''answer'', sdp_type = Answer\<rparr>],
                     candidates_added = []\<rparr>,
          signaled = [Some \<lparr>sdp = ''answer'', sdp_type = Answer\<rparr>,
                      Some \<lparr>sdp = ''answer'', sdp_type = Answer\<rparr>],
          finished = True\<rparr> \<and>
   run_offer recording_session [Description offer1, BYE] fresh_session =
     Inr \<lparr>session = \<lparr>remote_applied = [offer1],
                     local_applied = [\<lparr>sdp = ''offer'', sdp_type = Offer\<rparr>,
                                      \<lparr>sdp = ''answer'', sdp_type = Answer\<rparr>],
                     candidates_added = []\<rparr>,
          signaled = [Some \<lparr>sdp = ''offer'', sdp_type = Offer\<rparr>,
                      Some \<lparr>sdp = ''answer'', sdp_type = Answer\<rparr>],
          finished = True\<rparr>"
  by (simp add: run_answer_def run_offer_def recording_session_def fresh_session_def
      offer1_def offer2_def)

text \<open>
  Claim C5, amended: with a session that accepts every call, neither role ever raises;
  every description received before \<open>BYE\<close> is applied as a remote description and every
  offer among them is answered with one more local description (the server has applied its
  own offer before), without a limit on their number; every candidate received before
  \<open>BYE\<close> is added, wherever it stands among the descriptions.
\<close>

theorem negotiation_applies_everything:
  "(case run_answer recording_session inputs fresh_session of
      Inl e \<Rightarrow> False
    | Inr st \<Rightarrow>
        remote_applied (session st) = descriptions (before_bye inputs) \<and>
        length (local_applied (session st)) = length (offers (before_bye inputs)) \<and>
        candidates_added (session st) = candidates (before_bye inputs)) \<and>
   (case run_offer recording_session inputs fresh_session of
      Inl e \<Rightarrow> False
    | Inr st \<Rightarrow>
        remote_applied (session st) = descriptions (before_bye inputs) \<and>
        length (local_applied (session st)) = 1 + length (offers (before_bye inputs)) \<and>
        candidates_added (session st) = candidates (before_bye inputs))"
proof -
  let ?a = "\<lparr>session = fresh_session, signaled = [], finished = False\<rparr>"
  let ?pc = "fresh_session\<lparr>local_applied := [\<lparr>sdp = ''offer'', sdp_type = Offer\<rparr>]\<rparr>"
  let ?b = "\<lparr>session = ?pc, signaled = [localDescription recording_session ?pc],
            finished = False\<rparr>"
  have b: "run_offer recording_session inputs fresh_session =
           consume_signaling recording_session inputs ?b"
    by (simp add: run_offer_def recording_session_def fresh_session_def)
  from consume_recording [of inputs ?a] consume_recording [of inputs ?b]
  show ?thesis
    unfolding b run_answer_def by (auto simp: fresh_session_def)
qed

section \<open>Printing and reading a coordinate message\<close>

text \<open>The digits that \<open>str\<close> prints are read back as the number printed.\<close>

lemma digit_char_props:
  assumes "d < 10"
  shows "is_digit (digit_char d)" and "digit_value (digit_char d) = d"
    and "digit_char d = CHR ''0'' \<longleftrightarrow> d = 0"
proof -
  have code: "of_char (digit_char d) = 48 + d"
    using assms by (simp add: digit_char_def)
  show "is_digit (digit_char d)"
    using assms by (simp add: is_digit_def code)
  show "digit_value (digit_char d) = d"
    by (simp add: digit_value_def code)
  have "digit_char d = CHR ''0'' \<longleftrightarrow> (of_char (digit_char d) :: nat) = of_char (CHR ''0'')"
    by (simp only: of_char_eq_iff)
  then show "digit_char d = CHR ''0'' \<longleftrightarrow> d = 0"
    by (simp add: code)
qed

lemma nat_of_digits_snoc: "nat_of_digits (ds @ [c]) = 10 * nat_of_digits ds + digit_value c"
  by (simp add: nat_of_digits_def)

lemma str_nat_shape:
  "\<exists>c cs. str_nat n = c # cs \<and> is_digit c \<and> list_all is_digit cs \<and>
          (c = CHR ''0'' \<longrightarrow> cs = []) \<and> nat_of_digits (c # cs) = n"
proof (induction n rule: str_nat.induct)
  case (1 n)
  show ?case
  proof (cases "n < 10")
    case True
    then show ?thesis
      by (simp add: str_nat.simps [of n] digit_char_props nat_of_digits_def)
  next
    case False
    then have "10 \<le> n"
      by simp
    then obtain c cs where hd: "str_nat (n div 10) = c # cs" "is_digit c" "list_all is_digit cs"
        "c = CHR ''0'' \<longrightarrow> cs = []" "nat_of_digits (c # cs) = n div 10"
      using "1.IH" by blast
    have last: "is_digit (digit_char (n mod 10))" "digit_value (digit_char (n mod 10)) = n mod 10"
      by (simp_all add: digit_char_props)
    have nz: "c \<noteq> CHR ''0''"
    proof
      assume "c = CHR ''0''"
      with hd have "nat_of_digits [CHR ''0''] = n div 10" by simp
      then have "n div 10 = 0" by (simp add: nat_of_digits_def digit_value_def)
      with False show False by simp
    qed
    have val: "nat_of_digits ((c # cs) @ [digit_char (n mod 10)]) = n"
      unfolding nat_of_digits_snoc hd(5) last(2) by simp
    have "str_nat n = c # (cs @ [digit_char (n mod 10)])"
      using False hd(1) by (simp add: str_nat.simps [of n])
    with hd last nz val show ?thesis
      by simp
  qed
qed

text \<open>A printed number followed by a character that is no digit is one token.\<close>

lemma digits_then_stop:
  assumes "list_all is_digit cs" and "stops_number rest"
  shows "takeWhile is_digit (cs @ rest) = cs" and "dropWhile is_digit (cs @ rest) = rest"
proof -
  have stop: "takeWhile is_digit rest = []" "dropWhile is_digit rest = rest"
    using assms(2) by (cases rest; simp add: stops_number_def)+
  from assms(1) have all: "\<And>x. x \<in> set cs \<Longrightarrow> is_digit x"
    by (simp add: list_all_iff)
  show "takeWhile is_digit (cs @ rest) = cs"
    using all by (simp add: stop)
  show "dropWhile is_digit (cs @ rest) = rest"
    using all by (simp add: stop)
qed

lemma is_digit_not_punct:
  assumes "is_digit c"
  shows "c \<noteq> CHR '' ''" "c \<noteq> CHR ''{''" "c \<noteq> CHR ''}''" "c \<noteq> CHR '':''" "c \<noteq> CHR '',''"
    "c \<noteq> CHR ''-''" "c \<noteq> CHR ''+''"
  using assms by (auto simp: is_digit_def)

lemma tokens_str_nat:
  assumes "stops_number rest"
  shows "tokenize (str_nat n @ rest) = map_option (Cons (TNumber n)) (tokenize rest)"
proof -
  obtain c cs where sh: "str_nat n = c # cs" "is_digit c" "list_all is_digit cs"
      "c = CHR ''0'' \<longrightarrow> cs = []" "nat_of_digits (c # cs) = n"
    using str_nat_shape [of n] by blast
  have tw: "takeWhile is_digit (cs @ rest) = cs" and dw: "dropWhile is_digit (cs @ rest) = rest"
    using digits_then_stop [OF sh(3) assms] by simp_all
  show ?thesis
    unfolding sh(1) using sh(2,4,5) by (auto simp: is_digit_not_punct tw dw)
qed

lemma tokens_str_int:
  assumes "stops_number rest"
  shows "tokenize (str_int i @ rest) = map_option (append (int_tokens i)) (tokenize rest)"
  using assms
  by (cases "tokenize rest") (simp_all add: str_int_def int_tokens_def tokens_str_nat)

lemma parse_atom_int_tokens: "parse_atom (int_tokens i @ r) = Some (PInt i, r)"
  by (simp add: int_tokens_def)

lemma stops_number_simps [simp]:
  "stops_number []" "stops_number (CHR '','' # r)" "stops_number (CHR ''}'' # r)"
  by (simp_all add: stops_number_def is_digit_def)

text \<open>The tokens of a printed coordinate dictionary, and their value.\<close>

lemma tokens_str_dict:
  "tokenize (str_dict (detected x y)) =
     Some ([TLBrace, TString ''x'', TColon] @ int_tokens x @
           [TComma, TString ''y'', TColon] @ int_tokens y @ [TRBrace])"
  by (simp add: str_dict_def detected_def str_item_def quote_def plain_char_def is_digit_def
      tokens_str_int)

lemma parse_tokens_xy:
  "parse_value ([TLBrace, TString ''x'', TColon] @ int_tokens x @
           [TComma, TString ''y'', TColon] @ int_tokens y @ [TRBrace]) = Some (xy_dict x y)"
proof -
  have second: "parse_entries (TString ''y'' # TColon # int_tokens y @ [TRBrace]) =
      Some ([(PStr ''y'', PInt y)], [])"
    by (subst parse_entries.simps) (simp add: parse_entry_def parse_atom_int_tokens)
  have first: "parse_entries (TString ''x'' # TColon # int_tokens x @
           TComma # TString ''y'' # TColon # int_tokens y @ [TRBrace]) =
      Some ([(PStr ''x'', PInt x), (PStr ''y'', PInt y)], [])"
    by (subst parse_entries.simps) (simp add: parse_entry_def parse_atom_int_tokens second)
  show ?thesis
    by (simp add: parse_value_def first xy_dict_def)
qed

lemma parse_literal_str_dict: "parse_literal (str_dict (detected x y)) = Some (xy_dict x y)"
  by (simp only: parse_literal_def tokens_str_dict parse_tokens_xy Option.bind.simps)

section \<open>The message handler\<close>

text \<open>
  A literal value that is not a dictionary with real-number entries \<open>"x"\<close> and \<open>"y"\<close>
  makes \<open>compute_error\<close> raise: \<open>TypeError\<close> or \<open>KeyError\<close> at a subscription,
  \<open>TypeError\<close> at a subtraction or at the square root of a complex number.
\<close>

lemma not_pair_raises:
  assumes "\<not> coordinate_pair v"
  shows "\<exists>e. compute_error bt v = Inl e"
proof (cases v)
  case (PDict es)
  show ?thesis
  proof (cases "dict_get es ''x''")
    case None
    with PDict show ?thesis
      by (simp add: compute_error_def getitem_def)
  next
    case xa: (Some a)
    show ?thesis
    proof (cases "dict_get es ''y''")
      case None
      with PDict xa show ?thesis
        by (simp add: compute_error_def getitem_def split: sum.splits)
    next
      case yb: (Some b)
      from assms PDict xa yb have bad: "\<not> is_real_number a \<or> \<not> is_real_number b"
        by (simp add: coordinate_pair_def)
      then show ?thesis
      proof
        assume "\<not> is_real_number a"
        then show ?thesis
          using PDict xa yb
          by (cases a; cases b)
             (simp_all add: is_real_number_def compute_error_def getitem_def minus_int_def)
      next
        assume "\<not> is_real_number b"
        then show ?thesis
          using PDict xa yb
          by (cases a; cases b)
             (simp_all add: is_real_number_def compute_error_def getitem_def minus_int_def)
      qed
    qed
  qed
qed (simp_all add: compute_error_def getitem_def)

text \<open>
  Claim C6, amended: for every text message that is not parseable as an (x, y) pair,
  whatever the literal evaluator is, the handler raises an exception to its caller
  (the evaluator's, or the \<open>TypeError\<close> or \<open>KeyError\<close> of \<open>compute_error\<close>); a message
  that is not a \<open>str\<close> is dropped without an exception and without a log line.
\<close>

theorem malformed_text_raises:
  assumes "\<not> parseable_xy lit (Text m)"
  shows "raised (on_message lit bt (Text m)) \<noteq> None \<and>
         on_message lit bt (Binary b) = \<lparr>logged = [], raised = None\<rparr>"
proof (cases "lit m")
  case (Inl e)
  then show ?thesis
    by (simp add: on_message_def)
next
  case (Inr v)
  with assms have "\<not> coordinate_pair v"
    by (simp add: parseable_xy_def)
  then obtain e where "compute_error bt v = Inl e"
    using not_pair_raises by blast
  with Inr show ?thesis
    by (simp add: on_message_def)
qed

text \<open>A text message without the entry \<open>"y"\<close> ends in a \<open>KeyError\<close>.\<close>

lemma literal_without_y: "literal_eval ''{'x': 1}'' = Inr (PDict [(PStr ''x'', PInt 1)])"
  by code_simp

text \<open>The text \<open>{'x': 1}\<close> is a message that is not a pair.\<close>

theorem malformed_text_raises_witness:
  "\<not> parseable_xy literal_eval (Text ''{'x': 1}'') \<and>
   raised (on_message literal_eval BouncingBallTrack_init (Text ''{'x': 1}'')) \<noteq> None \<and>
   raised (on_message literal_eval BouncingBallTrack_init (Text ''{'x': 1}'')) = Some KeyError"
proof -
  have h: "\<not> parseable_xy literal_eval (Text ''{'x': 1}'')"
    by (simp add: parseable_xy_def literal_without_y coordinate_pair_def)
  have "raised (on_message literal_eval BouncingBallTrack_init (Text ''{'x': 1}'')) = Some KeyError"
    by (simp add: on_message_def literal_without_y compute_error_def getitem_def minus_int_def)
  with h malformed_text_raises [OF h, of BouncingBallTrack_init] show ?thesis
    by simp
qed

text \<open>
  Claim C6 as stated fails: the one-byte binary message \<open>b"\xff"\<close> is not parseable as
  an (x, y) pair, and the handler neither raises nor logs anything for it, because of the
  \<open>isinstance(message, str)\<close> test.
\<close>

theorem binary_message_counterexample:
  "\<not> parseable_xy literal_eval (Binary [CHR 0xFF]) \<and>
   on_message literal_eval BouncingBallTrack_init (Binary [CHR 0xFF]) =
     \<lparr>logged = [], raised = None\<rparr>"
  by (simp add: parseable_xy_def on_message_def)

text \<open>
  Claim C8: for all integers \<open>x\<close> and \<open>y\<close>, the text that the client sends for the
  coordinates \<open>{"x": x, "y": y}\<close> is evaluated by the server to a dictionary whose entries
  \<open>"x"\<close> and \<open>"y"\<close> are exactly the integers \<open>x\<close> and \<open>y\<close>.
\<close>

theorem coordinate_round_trip:
  "parse_literal (str_dict (detected x y)) = Some (xy_dict x y) \<and>
   literal_eval (str_dict (detected x y)) = Inr (xy_dict x y) \<and>
   getitem (xy_dict x y) ''x'' = Inr (PInt x) \<and>
   getitem (xy_dict x y) ''y'' = Inr (PInt y)"
proof -
  have ev: "literal_eval (str_dict (detected x y)) = Inr (xy_dict x y)"
    by (simp add: literal_eval_def parse_literal_str_dict)
  have "getitem (xy_dict x y) ''x'' = Inr (PInt x)" "getitem (xy_dict x y) ''y'' = Inr (PInt y)"
    by (simp_all add: xy_dict_def getitem_def)
  with ev show ?thesis
    by (simp add: parse_literal_str_dict)
qed

end
